theory Spec2Isabelle
  imports Main
begin

section \<open>The document store\<close>

text \<open>
  The server keeps every entity in a collection of the document store. A collection is
  modelled as the list of its documents in insertion order (the order in which a query
  without a sort returns them). Document identifiers are the store's own identifier
  values. A store that cannot be reached is outside the model.
\<close>

type_synonym oid = nat

text \<open>
  An identifier as a request carries it, a text that the store casts to an identifier
  when it queries by it: \<open>ObjectId i\<close> is a text that casts to the identifier \<open>i\<close>,
  \<open>NotObjectId t\<close> is the text \<open>t\<close>, which does not cast to an identifier (the empty
  text is one such). A request that carries no identifier at all is outside the model.
\<close>

datatype id_param = ObjectId oid | NotObjectId string

text \<open>Failures a store operation can raise; every handler catches them.\<close>

datatype store_error = ValidationError | DuplicateKey | CastError

text \<open>A decoded JSON value, and the rows decoded from a CSV file.\<close>

datatype json =
    JNull
  | JBool bool
  | JNumber int
  | JString string
  | JArray "json list"
  | JObject "(string \<times> json) list"

type_synonym csv = "(string \<times> string) list list"

subsection \<open>Documents\<close>

record user =
  u_id :: oid
  u_name :: string
  u_email :: string
  u_password :: string
  u_userType :: string
  u_createdAt :: nat

text \<open>
  A student document as the handler builds it: the four serialized fields hold the
  values \<open>JSON.parse\<close> returned.
\<close>

record student =
  st_id :: oid
  st_email :: "string option"
  st_location :: "string option"
  st_pinCode :: "string option"
  st_marks10 :: json
  st_is12thCompleted :: json
  st_marks12 :: json
  st_parents :: json
  st_interests :: "string option"
  st_hobbies :: "string option"
  st_fieldOfInterest :: "string option"
  st_photo :: "string option"
  st_markSheet :: "string option"

text \<open>\<open>collegeAdminSchema\<close> and \<open>approvedCollegeAdminSchema\<close> declare the same fields.\<close>

record collegeAdmin =
  ca_id :: oid
  ca_email :: string
  ca_location :: string
  ca_pincode :: string
  ca_universityAffiliation :: string
  ca_naacCertPhoto :: string
  ca_website :: string
  ca_noOfBranches :: int
  ca_branches :: "string list"

record placementData =
  pd_id :: oid
  pd_collegeName :: string
  pd_year :: int
  pd_fileUrl :: string
  pd_fileName :: string
  pd_mimeType :: string
  pd_approved :: bool

text \<open>
  \<open>transactionSchema\<close> requires no field: \<open>email\<close>, \<open>orderId\<close> and \<open>amount\<close> may be
  absent from a document; \<open>status\<close> and \<open>timestamp\<close> have defaults.
\<close>

record transaction =
  t_id :: oid
  t_email :: "string option"
  t_orderId :: "string option"
  t_amount :: "int option"
  t_status :: string
  t_timestamp :: nat

text \<open>The collections, and the next identifier the store hands out.\<close>

record db =
  users :: "user list"
  students :: "student list"
  collegeadmins :: "collegeAdmin list"
  approvedcollegeadmins :: "collegeAdmin list"
  placementdatas :: "placementData list"
  transactions :: "transaction list"
  next_id :: oid

subsection \<open>The services the handlers call\<close>

text \<open>
  Password hashing, token signing, JSON and CSV decoding, number parsing, the file
  system and the clock are used through their interfaces only; the handlers are
  parameterised by them. A decoder that throws returns \<open>None\<close>;
  \<open>parseInt\<close> returns \<open>None\<close> for \<open>NaN\<close>. \<open>StudentSchema_cast\<close> is the store's casting
  of a student document to the nested shapes of \<open>StudentSchema\<close>.

  Three more describe what the language and the store do with values the handlers do
  not look into: \<open>unicode_toLowerCase\<close> is the Unicode case mapping of
  \<open>String.prototype.toLowerCase\<close> on text beyond ASCII; \<open>String_cast\<close> is the store's
  casting of a value that is not a string to a \<open>String\<close> path (\<open>None\<close> when it does
  not cast); \<open>User_query\<close> is the store's answer to \<open>User.findOne({ email })\<close> for an
  email that is not a string (the value cast to a string, read as query operators, or
  refused).

  \<open>bcrypt_hash\<close> and \<open>bcrypt_compare\<close> are the library on strings; given data
  that is not a string both reject, which the handlers model themselves.
\<close>

record env =
  unicode_toLowerCase :: "string \<Rightarrow> string"
  String_cast :: "json \<Rightarrow> string option"
  User_query :: "json \<Rightarrow> user list \<Rightarrow> store_error + user option"
  bcrypt_hash :: "string \<Rightarrow> string"
  bcrypt_compare :: "string \<Rightarrow> string \<Rightarrow> bool"
  jwt_sign :: "oid \<Rightarrow> string \<Rightarrow> string"
  JSON_parse :: "string \<Rightarrow> json option"
  StudentSchema_cast :: "student \<Rightarrow> student option"
  existsSync :: "string \<Rightarrow> bool"
  parseCsvFile :: "string \<Rightarrow> csv option"
  parseInt :: "string \<Rightarrow> int option"
  Date_now :: nat

subsection \<open>Requests and responses\<close>

text \<open>
  The bodies of \<open>POST /api/register\<close> and \<open>POST /api/login\<close> are parsed JSON: a
  field is absent or holds any JSON value.
\<close>

record registerBody =
  r_name :: "json option"
  r_email :: "json option"
  r_password :: "json option"
  r_userType :: "json option"

record loginBody =
  l_email :: "json option"
  l_password :: "json option"

record submitDetailsBody =
  sd_email :: "string option"
  sd_location :: "string option"
  sd_pinCode :: "string option"
  sd_marks10 :: "string option"
  sd_is12thCompleted :: "string option"
  sd_marks12 :: "string option"
  sd_parents :: "string option"
  sd_interests :: "string option"
  sd_hobbies :: "string option"
  sd_fieldOfInterest :: "string option"

text \<open>The names under which the upload middleware saved the two files, if sent.\<close>

record submitDetailsFiles =
  f_photo :: "string option"
  f_markSheet :: "string option"


text \<open>
  The amount of \<open>POST /transactions\<close> as sent: absent, a value that does not cast
  to a number, or a number.
\<close>

datatype amount_field = NoAmount | NotANumber | Amount int

record transactionBody =
  tb_email :: "string option"
  tb_orderId :: "string option"
  tb_amount :: amount_field

record pendingEntry =
  pe_id :: oid
  pe_collegeName :: string
  pe_year :: int
  pe_data :: csv

record approvedEntry =
  ae_collegeName :: string
  ae_year :: int
  ae_data :: csv

text \<open>
  What a handler sends back: the status code and the payload. \<open>Message m\<close> is the
  object \<open>{message: m}\<close>, \<open>ErrorJson m\<close> is \<open>{error: m}\<close>, \<open>Text\<close> is a plain-text
  body, \<open>ErrMessage\<close> is \<open>{message: err.message}\<close> with the store's own wording.
\<close>

datatype payload =
    Message string
  | ErrorJson string
  | Text string
  | ErrMessage
  | LoginOk string string string
  | PlacementApproved string placementData
  | PendingList "pendingEntry list"
  | ApprovedList "approvedEntry list"
  | TransactionJson transaction

type_synonym response = "nat \<times> payload"

subsection \<open>JavaScript helpers\<close>

text \<open>\<open>!v\<close> for a value that is a string or undefined.\<close>

definition falsy :: "string option \<Rightarrow> bool" where
  "falsy v = (case v of None \<Rightarrow> True | Some t \<Rightarrow> t = [])"

text \<open>\<open>!v\<close> for a field of a JSON body.\<close>

definition falsy_json :: "json option \<Rightarrow> bool" where
  "falsy_json v =
     (case v of
        None \<Rightarrow> True
      | Some JNull \<Rightarrow> True
      | Some (JBool b) \<Rightarrow> \<not> b
      | Some (JNumber n) \<Rightarrow> n = 0
      | Some (JString t) \<Rightarrow> t = []
      | Some (JArray xs) \<Rightarrow> False
      | Some (JObject kvs) \<Rightarrow> False)"

text \<open>The text of a field that holds a string; \<open>None\<close> for every other value.\<close>

definition as_string :: "json option \<Rightarrow> string option" where
  "as_string v = (case v of Some (JString t) \<Rightarrow> Some t | _ \<Rightarrow> None)"

text \<open>\<open>!placementId\<close> for a path parameter: only the empty text is falsy.\<close>

definition falsy_id :: "id_param \<Rightarrow> bool" where
  "falsy_id p = (p = NotObjectId [])"

text \<open>
  \<open>String.prototype.toLowerCase\<close>. The letters A to Z come out in lower case; what
  happens to text beyond ASCII is left to \<open>unicode_toLowerCase\<close>, which on ASCII text
  may be the identity.
\<close>

definition isUpper :: "char \<Rightarrow> bool" where
  "isUpper c = (65 \<le> (of_char c :: nat) \<and> (of_char c :: nat) \<le> 90)"

definition toLowerChar :: "char \<Rightarrow> char" where
  "toLowerChar c = (if isUpper c then char_of ((of_char c :: nat) + 32) else c)"

definition toLowerCase :: "env \<Rightarrow> string \<Rightarrow> string" where
  "toLowerCase ev t = map toLowerChar (unicode_toLowerCase ev t)"


fun update_first :: "('a \<Rightarrow> bool) \<Rightarrow> ('a \<Rightarrow> 'a) \<Rightarrow> 'a list \<Rightarrow> 'a list" where
  "update_first p f [] = []"
| "update_first p f (x # xs) = (if p x then f x # xs else x # update_first p f xs)"

subsection \<open>Schema validation\<close>

text \<open>
  A path declared \<open>required: true\<close> must be present; a required string must also be
  non-empty. An array path has the default \<open>[]\<close>, so \<open>branches\<close> passes \<open>required\<close>
  also when the body does not carry it.
\<close>

definition required_String :: "string option \<Rightarrow> bool" where
  "required_String v = (case v of None \<Rightarrow> False | Some t \<Rightarrow> t \<noteq> [])"






text \<open>\<open>UserSchema\<close>: four required strings, \<open>userType\<close> one of two values.\<close>

definition UserSchema_valid :: "user \<Rightarrow> bool" where
  "UserSchema_valid u =
     (u_name u \<noteq> [] \<and> u_email u \<noteq> [] \<and> u_password u \<noteq> [] \<and>
      u_userType u \<in> set [''admin'', ''student''])"

section \<open>Auth service\<close>

text \<open>
  \<open>User.findOne({ email })\<close>: for a string, the first user with that email; for any
  other value, what the store makes of it.
\<close>

definition User_findOne :: "env \<Rightarrow> json \<Rightarrow> db \<Rightarrow> store_error + user option" where
  "User_findOne ev e s =
     (case e of
        JString t \<Rightarrow> Inr (find (\<lambda>u. u_email u = t) (users s))
      | _ \<Rightarrow> User_query ev e (users s))"

text \<open>The store's casting of a value to a \<open>String\<close> path.\<close>

definition castString :: "env \<Rightarrow> json \<Rightarrow> string option" where
  "castString ev v = (case v of JString t \<Rightarrow> Some t | _ \<Rightarrow> String_cast ev v)"

text \<open>
  \<open>newUser.save()\<close>: validation against the schema, then the insert, which the unique
  index on \<open>email\<close> rejects when that email is stored already.
\<close>

definition User_save :: "user \<Rightarrow> db \<Rightarrow> store_error + db" where
  "User_save u s =
     (if \<not> UserSchema_valid u then Inl ValidationError
      else if u_email u \<in> set (map u_email (users s)) then Inl DuplicateKey
      else Inr (s\<lparr>users := users s @ [u], next_id := Suc (next_id s)\<rparr>))"

text \<open>
  \<open>POST /api/register\<close>. Everything after the check of the four fields runs inside the
  handler's \<open>try\<close>: \<open>email.toLowerCase()\<close> throws for an email that is not a string,
  \<open>bcrypt.hash\<close> rejects a password that is not a string, and \<open>save\<close> rejects a name
  or a user type that does not cast or does not validate; the \<open>catch\<close> answers 500.
\<close>

definition register :: "env \<Rightarrow> registerBody \<Rightarrow> db \<Rightarrow> response \<times> db" where
  "register ev body s =
     (if falsy_json (r_name body) \<or> falsy_json (r_email body) \<or>
         falsy_json (r_password body) \<or> falsy_json (r_userType body)
      then ((400, Message ''All fields are required.''), s)
      else
        (case as_string (r_email body) of
           None \<Rightarrow> ((500, Message ''Server error.''), s)
         | Some email \<Rightarrow>
        (case User_findOne ev (JString (toLowerCase ev email)) s of
           Inl err \<Rightarrow> ((500, Message ''Server error.''), s)
         | Inr (Some existingUser) \<Rightarrow> ((400, Message ''Email already in use.''), s)
         | Inr None \<Rightarrow>
        (case as_string (r_password body) of
           None \<Rightarrow> ((500, Message ''Server error.''), s)
         | Some password \<Rightarrow>
        (case castString ev (the (r_name body)) of
           None \<Rightarrow> ((500, Message ''Server error.''), s)
         | Some name \<Rightarrow>
        (case castString ev (the (r_userType body)) of
           None \<Rightarrow> ((500, Message ''Server error.''), s)
         | Some userType \<Rightarrow>
             (let hashedPassword = bcrypt_hash ev password;
                  newUser = \<lparr>u_id = next_id s, u_name = name,
                             u_email = toLowerCase ev email,
                             u_password = hashedPassword,
                             u_userType = userType,
                             u_createdAt = Date_now ev\<rparr>
              in (case User_save newUser s of
                    Inl err \<Rightarrow> ((500, Message ''Server error.''), s)
                  | Inr s' \<Rightarrow>
                      ((201, Message ''User registered successfully.''), s')))))))))"

text \<open>
  \<open>POST /api/login\<close>. The handler reads the store and writes nothing. The lookup and
  \<open>bcrypt.compare\<close> run inside the handler's \<open>try\<close>: a lookup the store refuses, and
  a password that is not a string once a user has been found, end in the \<open>catch\<close>,
  which answers 500. When no user is found, \<open>bcrypt.compare\<close> is not called.
\<close>

definition login :: "env \<Rightarrow> loginBody \<Rightarrow> db \<Rightarrow> response" where
  "login ev body s =
     (if falsy_json (l_email body) \<or> falsy_json (l_password body)
      then (400, Message ''Email and password are required.'')
      else
        (case User_findOne ev (the (l_email body)) s of
           Inl err \<Rightarrow> (500, Message ''Server error.'')
         | Inr None \<Rightarrow> (400, Message ''Invalid credentials.'')
         | Inr (Some u) \<Rightarrow>
             (case as_string (l_password body) of
                None \<Rightarrow> (500, Message ''Server error.'')
              | Some password \<Rightarrow>
                  (if \<not> bcrypt_compare ev password (u_password u)
                   then (400, Message ''Invalid credentials.'')
                   else (200, LoginOk (jwt_sign ev (u_id u) (u_userType u)) (u_userType u)
                                (u_name u))))))"

section \<open>Student profile store\<close>

text \<open>\<open>JSON.parse\<close> of a form field; an absent field does not parse either.\<close>

definition JSON_parse_field :: "env \<Rightarrow> string option \<Rightarrow> json option" where
  "JSON_parse_field ev v = (case v of None \<Rightarrow> None | Some t \<Rightarrow> JSON_parse ev t)"

text \<open>\<open>newStudent.save()\<close>: \<open>email\<close> is required, the rest is cast to the schema.\<close>

definition Student_save :: "env \<Rightarrow> student \<Rightarrow> db \<Rightarrow> store_error + db" where
  "Student_save ev d s =
     (if \<not> required_String (st_email d) then Inl ValidationError
      else
        (case StudentSchema_cast ev d of
           None \<Rightarrow> Inl CastError
         | Some d' \<Rightarrow> Inr (s\<lparr>students := students s @ [d'], next_id := Suc (next_id s)\<rparr>)))"

text \<open>
  \<open>POST /api/students/submitDetails\<close>. The four \<open>JSON.parse\<close> calls run in the order
  of the object literal; the first that throws ends the handler in its \<open>catch\<close>.
\<close>

definition submitDetails ::
  "env \<Rightarrow> submitDetailsBody \<Rightarrow> submitDetailsFiles \<Rightarrow> db \<Rightarrow> response \<times> db" where
  "submitDetails ev body files s =
     (let photo = map_option (\<lambda>n. ''/uploads/'' @ n) (f_photo files);
          markSheet = map_option (\<lambda>n. ''/uploads/'' @ n) (f_markSheet files);
          failed = ((500, Message ''Failed to save student details''), s)
      in
        (case JSON_parse_field ev (sd_marks10 body) of
           None \<Rightarrow> failed
         | Some m10 \<Rightarrow>
        (case JSON_parse_field ev (sd_is12thCompleted body) of
           None \<Rightarrow> failed
         | Some c12 \<Rightarrow>
        (case JSON_parse_field ev (sd_marks12 body) of
           None \<Rightarrow> failed
         | Some m12 \<Rightarrow>
        (case JSON_parse_field ev (sd_parents body) of
           None \<Rightarrow> failed
         | Some ps \<Rightarrow>
             (let newStudent =
                    \<lparr>st_id = next_id s, st_email = sd_email body,
                     st_location = sd_location body, st_pinCode = sd_pinCode body,
                     st_marks10 = m10, st_is12thCompleted = c12, st_marks12 = m12,
                     st_parents = ps, st_interests = sd_interests body,
                     st_hobbies = sd_hobbies body,
                     st_fieldOfInterest = sd_fieldOfInterest body,
                     st_photo = photo, st_markSheet = markSheet\<rparr>
              in (case Student_save ev newStudent s of
                    Inl err \<Rightarrow> failed
                  | Inr s' \<Rightarrow>
                      ((201, Message ''Student details saved successfully''), s'))))))))"

section \<open>College-admin workflow\<close>







section \<open>Placement data workflow\<close>

text \<open>
  \<open>PlacementData.findByIdAndUpdate(id, { approved: true }, { new: true })\<close>: sets the
  flag on the document with that identifier and returns the updated document, or
  returns null and changes nothing; a text that does not cast to an identifier is
  refused.
\<close>

definition PlacementData_findByIdAndUpdate ::
  "id_param \<Rightarrow> db \<Rightarrow> store_error + (placementData option \<times> db)" where
  "PlacementData_findByIdAndUpdate p s =
     (case p of
        NotObjectId t \<Rightarrow> Inl CastError
      | ObjectId i \<Rightarrow>
          (case find (\<lambda>d. pd_id d = i) (placementdatas s) of
             None \<Rightarrow> Inr (None, s)
           | Some d \<Rightarrow>
               Inr (Some (d\<lparr>pd_approved := True\<rparr>),
                    s\<lparr>placementdatas :=
                        update_first (\<lambda>d. pd_id d = i) (\<lambda>d. d\<lparr>pd_approved := True\<rparr>)
                          (placementdatas s)\<rparr>)))"

text \<open>
  The handler of \<open>POST /api/approve-placement/:id\<close>, as a function of the path
  parameter. The router calls it with a non-empty parameter only (a request without
  one does not match the route and is answered by the router), so its first branch is
  not reached through the route; it is kept as the handler has it.
\<close>

definition approve_placement :: "id_param \<Rightarrow> db \<Rightarrow> response \<times> db" where
  "approve_placement placementId s =
     (if falsy_id placementId
      then ((400, Message ''Placement ID is required''), s)
      else
        (case PlacementData_findByIdAndUpdate placementId s of
           Inl err \<Rightarrow> ((500, Message ''Failed to approve placement''), s)
         | Inr (None, s') \<Rightarrow> ((404, Message ''Placement not found''), s')
         | Inr (Some updatedPlacement, s') \<Rightarrow>
             ((200, PlacementApproved ''Placement approved successfully'' updatedPlacement),
              s')))"

text \<open>
  The loop of \<open>GET /api/get-placement-data\<close> over the pending records: a record whose
  file is missing is skipped; a file that does not decode ends the loop in the
  handler's \<open>catch\<close> (\<open>None\<close>).
\<close>

fun pending_loop :: "env \<Rightarrow> placementData list \<Rightarrow> pendingEntry list \<Rightarrow> pendingEntry list option" where
  "pending_loop ev [] allPlacementData = Some allPlacementData"
| "pending_loop ev (record # records) allPlacementData =
     (if \<not> existsSync ev (pd_fileUrl record) then pending_loop ev records allPlacementData
      else
        (case parseCsvFile ev (pd_fileUrl record) of
           None \<Rightarrow> None
         | Some csvData \<Rightarrow>
             pending_loop ev records
               (allPlacementData @
                  [\<lparr>pe_id = pd_id record, pe_collegeName = pd_collegeName record,
                    pe_year = pd_year record, pe_data = csvData\<rparr>])))"

definition get_placement_data :: "env \<Rightarrow> db \<Rightarrow> response" where
  "get_placement_data ev s =
     (let placementRecords = filter (\<lambda>d. \<not> pd_approved d) (placementdatas s)
      in (case pending_loop ev placementRecords [] of
            None \<Rightarrow> (500, Message ''Failed to fetch placement data'')
          | Some allPlacementData \<Rightarrow> (200, PendingList allPlacementData)))"

text \<open>The loop of \<open>GET /api/get-approved-placement-data\<close> over the matching records.\<close>

fun approved_loop :: "env \<Rightarrow> placementData list \<Rightarrow> approvedEntry list \<Rightarrow> approvedEntry list option" where
  "approved_loop ev [] allCsvData = Some allCsvData"
| "approved_loop ev (record # records) allCsvData =
     (if existsSync ev (pd_fileUrl record) then
        (case parseCsvFile ev (pd_fileUrl record) of
           None \<Rightarrow> None
         | Some csvData \<Rightarrow>
             approved_loop ev records
               (allCsvData @
                  [\<lparr>ae_collegeName = pd_collegeName record, ae_year = pd_year record,
                    ae_data = csvData\<rparr>]))
      else approved_loop ev records allCsvData)"

text \<open>
  The records \<open>PlacementData.find({ collegeName, year, approved: true })\<close> returns.
\<close>

definition approved_matching :: "string \<Rightarrow> int \<Rightarrow> db \<Rightarrow> placementData list" where
  "approved_matching collegeName y s =
     filter (\<lambda>d. pd_collegeName d = collegeName \<and> pd_year d = y \<and> pd_approved d)
       (placementdatas s)"

text \<open>
  \<open>GET /api/get-approved-placement-data\<close>. Both filters are query strings. A year
  that \<open>parseInt\<close> turns into \<open>NaN\<close> makes the query fail to cast, which the handler
  catches.
\<close>

definition get_approved_placement_data ::
  "env \<Rightarrow> string option \<Rightarrow> string option \<Rightarrow> db \<Rightarrow> response" where
  "get_approved_placement_data ev collegeName year s =
     (if falsy collegeName \<or> falsy year
      then (400, Message ''College name and year are required'')
      else
        (case parseInt ev (the year) of
           None \<Rightarrow> (500, Message ''Failed to fetch approved placement data'')
         | Some y \<Rightarrow>
             (let placementRecords = approved_matching (the collegeName) y s
              in if length placementRecords = 0
                 then (404, Message
                   ''No approved placements found for the specified college and year'')
                 else
                   (case approved_loop ev placementRecords [] of
                      None \<Rightarrow> (500, Message ''Failed to fetch approved placement data'')
                    | Some allCsvData \<Rightarrow> (200, ApprovedList allCsvData)))))"

section \<open>Transaction ledger\<close>

text \<open>
  \<open>POST /transactions\<close>: a new document from the three fields of the body, with the
  schema's defaults for \<open>status\<close> and \<open>timestamp\<close>; an amount that does not cast to a
  number fails validation.
\<close>

definition post_transactions :: "env \<Rightarrow> transactionBody \<Rightarrow> db \<Rightarrow> response \<times> db" where
  "post_transactions ev body s =
     (case tb_amount body of
        NotANumber \<Rightarrow> ((400, ErrMessage), s)
      | a \<Rightarrow>
          (let savedTransaction =
                 \<lparr>t_id = next_id s, t_email = tb_email body, t_orderId = tb_orderId body,
                  t_amount = (case a of Amount n \<Rightarrow> Some n | _ \<Rightarrow> None),
                  t_status = ''pending'', t_timestamp = Date_now ev\<rparr>
           in ((201, TransactionJson savedTransaction),
               s\<lparr>transactions := transactions s @ [savedTransaction],
                 next_id := Suc (next_id s)\<rparr>)))"

text \<open>
  \<open>Transaction.findOneAndUpdate({ orderId }, { status }, { new: true, upsert: true })\<close>:
  the first transaction with that \<open>orderId\<close> gets the status; when there is none, a
  document is inserted from the filter and the update, with the schema's default for
  \<open>timestamp\<close>. The document returned is the one after the update.
\<close>

definition Transaction_findOneAndUpdate :: "env \<Rightarrow> string \<Rightarrow> string \<Rightarrow> db \<Rightarrow> transaction \<times> db" where
  "Transaction_findOneAndUpdate ev orderId status s =
     (case find (\<lambda>t. t_orderId t = Some orderId) (transactions s) of
        Some t \<Rightarrow>
          (t\<lparr>t_status := status\<rparr>,
           s\<lparr>transactions :=
               update_first (\<lambda>t. t_orderId t = Some orderId) (\<lambda>t. t\<lparr>t_status := status\<rparr>)
                 (transactions s)\<rparr>)
      | None \<Rightarrow>
          (let t = \<lparr>t_id = next_id s, t_email = None, t_orderId = Some orderId,
                    t_amount = None, t_status = status, t_timestamp = Date_now ev\<rparr>
           in (t, s\<lparr>transactions := transactions s @ [t], next_id := Suc (next_id s)\<rparr>)))"

text \<open>\<open>POST /payment-status\<close>, for a body that carries both strings.\<close>

definition payment_status :: "env \<Rightarrow> string \<Rightarrow> string \<Rightarrow> db \<Rightarrow> response \<times> db" where
  "payment_status ev orderId status s =
     (case Transaction_findOneAndUpdate ev orderId status s of
        (transaction, s') \<Rightarrow> ((200, TransactionJson transaction), s'))"

subsection \<open>Notions used to state the auth properties\<close>


subsection \<open>Notions used to state the placement properties\<close>

text \<open>The store after the flag of record \<open>i\<close> has been set, nothing else changed.\<close>

definition approved_store :: "oid \<Rightarrow> db \<Rightarrow> db" where
  "approved_store i s =
     s\<lparr>placementdatas :=
         map (\<lambda>d. if pd_id d = i then d\<lparr>pd_approved := True\<rparr> else d) (placementdatas s)\<rparr>"

text \<open>The entry the approved-data loop pushes for a record whose file decodes.\<close>

definition approvedEntry_of :: "env \<Rightarrow> placementData \<Rightarrow> approvedEntry" where
  "approvedEntry_of ev d =
     \<lparr>ae_collegeName = pd_collegeName d, ae_year = pd_year d,
      ae_data = the (parseCsvFile ev (pd_fileUrl d))\<rparr>"

text \<open>Every referenced file that exists decodes.\<close>

definition files_decode :: "env \<Rightarrow> db \<Rightarrow> bool" where
  "files_decode ev s =
     list_all (\<lambda>d. existsSync ev (pd_fileUrl d) \<longrightarrow> parseCsvFile ev (pd_fileUrl d) \<noteq> None)
       (placementdatas s)"

section \<open>Concrete services and stores for evaluation\<close>

text \<open>
  A small instance of the services: the case mapping beyond ASCII is the identity, no
  value but a string casts to a string, a lookup by an email that is not a string is
  refused, the hash prefixes a marker, the JSON decoder knows three texts, one uploaded
  file exists and decodes to one row, and \<open>parseInt\<close> knows one year.
\<close>

definition sample_env :: env where
  "sample_env =
     \<lparr>unicode_toLowerCase = (\<lambda>t. t),
      String_cast = (\<lambda>v. None),
      User_query = (\<lambda>v us. Inl CastError),
      bcrypt_hash = (\<lambda>p. ''$2b$'' @ p),
      bcrypt_compare = (\<lambda>p h. h = ''$2b$'' @ p),
      jwt_sign = (\<lambda>i t. ''jwt.'' @ t),
      JSON_parse = (\<lambda>t. if t = ''{}'' then Some (JObject [])
                          else if t = ''true'' then Some (JBool True)
                          else if t = ''false'' then Some (JBool False)
                          else None),
      StudentSchema_cast = Some,
      existsSync = (\<lambda>f. f = ''uploads/a.csv''),
      parseCsvFile = (\<lambda>f. if f = ''uploads/a.csv''
                            then Some [[(''branch'', ''CSE''), (''placed'', ''42'')]]
                            else None),
      parseInt = (\<lambda>t. if t = ''2023'' then Some 2023 else None),
      Date_now = 1700000000\<rparr>"

text \<open>
  The same services with a case mapping that folds the capital A with grave (the bytes
  C3 80 of its UTF-8 form) at the start of a text to the small one (C3 A0).
\<close>

definition latin_env :: env where
  "latin_env =
     sample_env\<lparr>unicode_toLowerCase :=
       (\<lambda>t. case t of
              c # d # rest \<Rightarrow>
                if c = CHR 0xC3 \<and> d = CHR 0x80 then CHR 0xC3 # CHR 0xA0 # rest else t
            | _ \<Rightarrow> t)\<rparr>"

definition empty_db :: db where
  "empty_db =
     \<lparr>users = [], students = [], collegeadmins = [], approvedcollegeadmins = [],
      placementdatas = [], transactions = [], next_id = 0\<rparr>"


definition sample_placement :: "string \<Rightarrow> placementData" where
  "sample_placement url =
     \<lparr>pd_id = 3, pd_collegeName = ''COEP'', pd_year = 2023, pd_fileUrl = url,
      pd_fileName = ''a.csv'', pd_mimeType = ''text/csv'', pd_approved = False\<rparr>"


text \<open>A store whose only document is one placement record.\<close>

definition one_placement :: "string \<Rightarrow> bool \<Rightarrow> db" where
  "one_placement url a =
     empty_db\<lparr>placementdatas := [(sample_placement url)\<lparr>pd_approved := a\<rparr>]\<rparr>"

text \<open>A registered user, a registration, a profile submission and a transaction.\<close>

definition sample_user :: user where
  "sample_user =
     \<lparr>u_id = 0, u_name = ''Asha'', u_email = ''asha@example.com'',
      u_password = ''$2b$secret'', u_userType = ''student'', u_createdAt = 1700000000\<rparr>"

definition sample_register :: "string \<Rightarrow> string \<Rightarrow> registerBody" where
  "sample_register e role =
     \<lparr>r_name = Some (JString ''Asha''), r_email = Some (JString e),
      r_password = Some (JString ''secret''), r_userType = Some (JString role)\<rparr>"

definition sample_login :: "string \<Rightarrow> json \<Rightarrow> loginBody" where
  "sample_login e p = \<lparr>l_email = Some (JString e), l_password = Some p\<rparr>"

definition sample_details :: "string option \<Rightarrow> submitDetailsBody" where
  "sample_details m10 =
     \<lparr>sd_email = Some ''asha@example.com'', sd_location = Some ''Pune'',
      sd_pinCode = Some ''411001'', sd_marks10 = m10, sd_is12thCompleted = Some ''true'',
      sd_marks12 = Some ''{}'', sd_parents = Some ''{}'', sd_interests = None,
      sd_hobbies = None, sd_fieldOfInterest = None\<rparr>"

definition sample_transaction :: transaction where
  "sample_transaction =
     \<lparr>t_id = 0, t_email = Some ''asha@example.com'', t_orderId = Some ''order_1'',
      t_amount = Some 499, t_status = ''pending'', t_timestamp = 1700000000\<rparr>"

section \<open>Lemmas about lists and the store operations\<close>





lemma update_first_distinct_ids:
  "distinct (map f xs) \<Longrightarrow>
   update_first (\<lambda>d. f d = i) g xs = map (\<lambda>d. if f d = i then g d else d) xs"
proof (induction xs)
  case Nil
  then show ?case by simp
next
  case (Cons x xs)
  show ?case
  proof (cases "f x = i")
    case True
    with Cons.prems have "i \<notin> f ` set xs" by simp
    then have "\<forall>y \<in> set xs. f y \<noteq> i" by blast
    then have "map (\<lambda>d. if f d = i then g d else d) xs = xs" by (simp add: map_idI)
    with True show ?thesis by simp
  next
    case False
    with Cons show ?thesis by simp
  qed
qed

lemma find_by_id_distinct:
  "distinct (map f xs) \<Longrightarrow> r \<in> set xs \<Longrightarrow> find (\<lambda>d. f d = f r) xs = Some r"
  by (induction xs) (auto simp: image_iff)

lemma find_by_id_absent: "i \<notin> set (map f xs) \<Longrightarrow> find (\<lambda>d. f d = i) xs = None"
  by (induction xs) auto

lemma pending_loop_ids:
  "pending_loop ev rs acc = Some es \<Longrightarrow> pe_id ` set es \<subseteq> pe_id ` set acc \<union> pd_id ` set rs"
proof (induction rs arbitrary: acc)
  case Nil
  then show ?case by auto
next
  case (Cons r rs)
  show ?case
  proof (cases "existsSync ev (pd_fileUrl r)")
    case False
    with Cons.prems have "pending_loop ev rs acc = Some es" by simp
    from Cons.IH [OF this] show ?thesis by auto
  next
    case True
    with Cons.prems obtain c where c: "parseCsvFile ev (pd_fileUrl r) = Some c"
      by (cases "parseCsvFile ev (pd_fileUrl r)") auto
    with True Cons.prems have
      "pending_loop ev rs (acc @ [\<lparr>pe_id = pd_id r, pe_collegeName = pd_collegeName r,
          pe_year = pd_year r, pe_data = c\<rparr>]) = Some es" by simp
    from Cons.IH [OF this] show ?thesis by auto
  qed
qed

lemma approved_loop_entries:
  "list_all (\<lambda>d. existsSync ev (pd_fileUrl d) \<longrightarrow> parseCsvFile ev (pd_fileUrl d) \<noteq> None) rs \<Longrightarrow>
   approved_loop ev rs acc =
     Some (acc @ map (approvedEntry_of ev) (filter (\<lambda>d. existsSync ev (pd_fileUrl d)) rs))"
  by (induction rs arbitrary: acc) (auto simp: approvedEntry_of_def)

lemma list_all_filter: "list_all P xs \<Longrightarrow> list_all P (filter Q xs)"
  by (induction xs) auto

section \<open>College-admin approval\<close>








section \<open>Placement data\<close>

lemma approved_query_found:
  assumes "\<not> falsy collegeName" and "\<not> falsy year"
    and "parseInt ev (the year) = Some y"
    and "approved_matching (the collegeName) y s \<noteq> []"
    and "files_decode ev s"
  shows "get_approved_placement_data ev collegeName year s =
           (200, ApprovedList (map (approvedEntry_of ev)
              (filter (\<lambda>d. existsSync ev (pd_fileUrl d))
                 (approved_matching (the collegeName) y s))))"
proof -
  from assms(5) have
    "approved_loop ev (approved_matching (the collegeName) y s) [] =
       Some (map (approvedEntry_of ev) (filter (\<lambda>d. existsSync ev (pd_fileUrl d))
              (approved_matching (the collegeName) y s)))"
    using approved_loop_entries [of ev "approved_matching (the collegeName) y s" "[]"]
    by (simp add: files_decode_def approved_matching_def list_all_filter)
  with assms(1-4) show ?thesis
    by (simp add: get_approved_placement_data_def)
qed

text \<open>
  C8 (amended). The query for approved placement data answers 400 when either filter
  is missing or empty. With both present and a year that parses to a number, it
  answers 404 when no approved record matches both filters; otherwise, when every
  existing file decodes, it answers 200 with one entry, in store order, for each
  matching record whose file exists. Matching records whose file is missing are
  skipped.
\<close>

theorem get_approved_placement_data_outcomes:
  "(falsy collegeName \<or> falsy year \<longrightarrow>
      get_approved_placement_data ev collegeName year s =
        (400, Message ''College name and year are required'')) \<and>
   (\<not> falsy collegeName \<and> \<not> falsy year \<and> parseInt ev (the year) = Some y \<and>
    approved_matching (the collegeName) y s = [] \<longrightarrow>
      get_approved_placement_data ev collegeName year s =
        (404, Message ''No approved placements found for the specified college and year'')) \<and>
   (\<not> falsy collegeName \<and> \<not> falsy year \<and> parseInt ev (the year) = Some y \<and>
    approved_matching (the collegeName) y s \<noteq> [] \<and> files_decode ev s \<longrightarrow>
      get_approved_placement_data ev collegeName year s =
        (200, ApprovedList (map (approvedEntry_of ev)
           (filter (\<lambda>d. existsSync ev (pd_fileUrl d))
              (approved_matching (the collegeName) y s)))))"
proof (intro conjI impI)
  assume "falsy collegeName \<or> falsy year"
  then show "get_approved_placement_data ev collegeName year s =
        (400, Message ''College name and year are required'')"
    by (simp add: get_approved_placement_data_def)
next
  assume "\<not> falsy collegeName \<and> \<not> falsy year \<and> parseInt ev (the year) = Some y \<and>
    approved_matching (the collegeName) y s = []"
  then show "get_approved_placement_data ev collegeName year s =
        (404, Message ''No approved placements found for the specified college and year'')"
    by (simp add: get_approved_placement_data_def)
next
  assume "\<not> falsy collegeName \<and> \<not> falsy year \<and> parseInt ev (the year) = Some y \<and>
    approved_matching (the collegeName) y s \<noteq> [] \<and> files_decode ev s"
  then show "get_approved_placement_data ev collegeName year s =
        (200, ApprovedList (map (approvedEntry_of ev)
           (filter (\<lambda>d. existsSync ev (pd_fileUrl d))
              (approved_matching (the collegeName) y s))))"
    by (simp add: approved_query_found)
qed

theorem get_approved_placement_data_outcomes_witness:
  "get_approved_placement_data sample_env None (Some ''2023'') empty_db =
     (400, Message ''College name and year are required'') \<and>
   get_approved_placement_data sample_env (Some ''COEP'') (Some ''2023'') empty_db =
     (404, Message ''No approved placements found for the specified college and year'') \<and>
   get_approved_placement_data sample_env (Some ''COEP'') (Some ''2023'')
       (one_placement ''uploads/a.csv'' True) =
     (200, ApprovedList [\<lparr>ae_collegeName = ''COEP'', ae_year = 2023,
                          ae_data = [[(''branch'', ''CSE''), (''placed'', ''42'')]]\<rparr>])"
proof -
  let ?s = "one_placement ''uploads/a.csv'' True"
  have f: "falsy None" "\<not> falsy (Some ''COEP'')" "\<not> falsy (Some ''2023'')"
    by (simp_all add: falsy_def)
  have y: "parseInt sample_env (the (Some ''2023'')) = Some 2023"
    by (simp add: sample_env_def)
  have m0: "approved_matching (the (Some ''COEP'')) 2023 empty_db = []"
    by (simp add: approved_matching_def empty_db_def)
  have m1: "approved_matching (the (Some ''COEP'')) 2023 ?s =
      [(sample_placement ''uploads/a.csv'')\<lparr>pd_approved := True\<rparr>]"
    by (simp add: approved_matching_def one_placement_def sample_placement_def empty_db_def)
  have fd: "files_decode sample_env ?s"
    by (simp add: files_decode_def one_placement_def sample_placement_def empty_db_def
        sample_env_def)
  have e: "map (approvedEntry_of sample_env)
        (filter (\<lambda>d. existsSync sample_env (pd_fileUrl d))
           [(sample_placement ''uploads/a.csv'')\<lparr>pd_approved := True\<rparr>]) =
      [\<lparr>ae_collegeName = ''COEP'', ae_year = 2023,
        ae_data = [[(''branch'', ''CSE''), (''placed'', ''42'')]]\<rparr>]"
    by (simp add: approvedEntry_of_def sample_placement_def sample_env_def)
  from get_approved_placement_data_outcomes [of None "Some ''2023''" sample_env empty_db 2023] f
  have a: "get_approved_placement_data sample_env None (Some ''2023'') empty_db =
     (400, Message ''College name and year are required'')" by blast
  from get_approved_placement_data_outcomes
    [of "Some ''COEP''" "Some ''2023''" sample_env empty_db 2023] f y m0
  have b: "get_approved_placement_data sample_env (Some ''COEP'') (Some ''2023'') empty_db =
     (404, Message ''No approved placements found for the specified college and year'')"
    by blast
  from get_approved_placement_data_outcomes
    [of "Some ''COEP''" "Some ''2023''" sample_env ?s 2023] f y m1 fd
  have "get_approved_placement_data sample_env (Some ''COEP'') (Some ''2023'') ?s =
     (200, ApprovedList (map (approvedEntry_of sample_env)
        (filter (\<lambda>d. existsSync sample_env (pd_fileUrl d))
           [(sample_placement ''uploads/a.csv'')\<lparr>pd_approved := True\<rparr>])))"
    by simp
  with e have c: "get_approved_placement_data sample_env (Some ''COEP'') (Some ''2023'') ?s =
     (200, ApprovedList [\<lparr>ae_collegeName = ''COEP'', ae_year = 2023,
                          ae_data = [[(''branch'', ''CSE''), (''placed'', ''42'')]]\<rparr>])"
    by simp
  from a b c show ?thesis by blast
qed

text \<open>
  C8 as stated fails when a matching record's file is missing: one approved record
  matches both filters, and the answer is 200 with no entry.
\<close>

theorem query_skips_missing_file_counterexample:
  "length (approved_matching ''COEP'' 2023 (one_placement ''uploads/gone.csv'' True)) = 1 \<and>
   \<not> existsSync sample_env ''uploads/gone.csv'' \<and>
   get_approved_placement_data sample_env (Some ''COEP'') (Some ''2023'')
       (one_placement ''uploads/gone.csv'' True) = (200, ApprovedList [])"
  by (simp add: get_approved_placement_data_def approved_matching_def one_placement_def
      sample_placement_def empty_db_def sample_env_def falsy_def)

lemma approve_placement_found:
  assumes d: "distinct (map pd_id (placementdatas s))" and r: "r \<in> set (placementdatas s)"
  shows "approve_placement (ObjectId (pd_id r)) s =
           ((200, PlacementApproved ''Placement approved successfully'' (r\<lparr>pd_approved := True\<rparr>)),
            s\<lparr>placementdatas :=
                map (\<lambda>d. if pd_id d = pd_id r then d\<lparr>pd_approved := True\<rparr> else d)
                  (placementdatas s)\<rparr>)"
  using find_by_id_distinct [OF d r]
  by (simp add: approve_placement_def PlacementData_findByIdAndUpdate_def falsy_id_def
      update_first_distinct_ids [OF d])

lemma approve_placement_absent:
  "i \<notin> set (map pd_id (placementdatas s)) \<Longrightarrow>
   approve_placement (ObjectId i) s = ((404, Message ''Placement not found''), s)"
  using find_by_id_absent [of i pd_id "placementdatas s"]
  by (simp add: approve_placement_def PlacementData_findByIdAndUpdate_def falsy_id_def)

lemma approve_placement_not_an_id:
  "approve_placement (NotObjectId t) s =
     (if t = [] then ((400, Message ''Placement ID is required''), s)
      else ((500, Message ''Failed to approve placement''), s))"
  by (simp add: approve_placement_def PlacementData_findByIdAndUpdate_def falsy_id_def)

lemma approved_not_pending:
  "i \<notin> pd_id ` set (filter (\<lambda>d. \<not> pd_approved d)
      (map (\<lambda>d. if pd_id d = i then d\<lparr>pd_approved := True\<rparr> else d) xs))"
  by (induction xs) auto

lemma list_all_map_same: "(\<And>x. P (f x) = P x) \<Longrightarrow> list_all P (map f xs) = list_all P xs"
  by (induction xs) auto

lemma files_decode_approved_store: "files_decode ev (approved_store i s) = files_decode ev s"
  unfolding files_decode_def approved_store_def
  by (simp add: list_all_map_same)

lemma pending_result:
  "get_placement_data ev s = (200, PendingList es) \<Longrightarrow>
   pending_loop ev (filter (\<lambda>d. \<not> pd_approved d) (placementdatas s)) [] = Some es"
  by (cases "pending_loop ev (filter (\<lambda>d. \<not> pd_approved d) (placementdatas s)) []")
     (simp_all add: get_placement_data_def)

lemma not_pending_after:
  assumes "get_placement_data ev (approved_store i s) = (200, PendingList es)"
  shows "i \<notin> pe_id ` set es"
proof -
  let ?ps = "filter (\<lambda>d. \<not> pd_approved d) (placementdatas (approved_store i s))"
  from pending_result [OF assms] have "pending_loop ev ?ps [] = Some es" .
  from pending_loop_ids [OF this] have "pe_id ` set es \<subseteq> pd_id ` set ?ps" by simp
  moreover have "i \<notin> pd_id ` set ?ps"
    using approved_not_pending [of i "placementdatas s"] by (simp add: approved_store_def)
  ultimately show ?thesis by blast
qed

lemma approved_matching_after:
  "r \<in> set (placementdatas s) \<Longrightarrow>
   r\<lparr>pd_approved := True\<rparr> \<in>
     set (approved_matching (pd_collegeName r) (pd_year r) (approved_store (pd_id r) s))"
proof -
  assume "r \<in> set (placementdatas s)"
  then have "r\<lparr>pd_approved := True\<rparr> \<in>
      set (map (\<lambda>d. if pd_id d = pd_id r then d\<lparr>pd_approved := True\<rparr> else d)
             (placementdatas s))"
    by (simp add: image_iff) (rule bexI [of _ r], simp_all)
  then show ?thesis by (simp add: approved_matching_def approved_store_def)
qed

lemma approvedEntry_of_approved:
  "approvedEntry_of ev (r\<lparr>pd_approved := True\<rparr>) = approvedEntry_of ev r"
  by (simp add: approvedEntry_of_def)

lemma approved_query_after:
  assumes r: "r \<in> set (placementdatas s)"
    and ex: "existsSync ev (pd_fileUrl r)"
    and fd: "files_decode ev s"
    and cn: "pd_collegeName r \<noteq> []" and y: "year \<noteq> []"
    and pi: "parseInt ev year = Some (pd_year r)"
  shows "\<exists>es. get_approved_placement_data ev (Some (pd_collegeName r)) (Some year)
                (approved_store (pd_id r) s) = (200, ApprovedList es) \<and>
              approvedEntry_of ev r \<in> set es"
proof -
  let ?s' = "approved_store (pd_id r) s"
  let ?m = "approved_matching (pd_collegeName r) (pd_year r) ?s'"
  let ?es = "map (approvedEntry_of ev) (filter (\<lambda>d. existsSync ev (pd_fileUrl d)) ?m)"
  have mem: "r\<lparr>pd_approved := True\<rparr> \<in> set ?m"
    using r by (rule approved_matching_after)
  then have ne: "?m \<noteq> []" by auto
  have fd': "files_decode ev ?s'" using fd by (simp add: files_decode_approved_store)
  have resp: "get_approved_placement_data ev (Some (pd_collegeName r)) (Some year) ?s' =
     (200, ApprovedList ?es)"
    using approved_query_found
      [of "Some (pd_collegeName r)" "Some year" ev "pd_year r" ?s'] cn y pi ne fd'
    by (simp add: falsy_def)
  from mem ex have "r\<lparr>pd_approved := True\<rparr> \<in>
      set (filter (\<lambda>d. existsSync ev (pd_fileUrl d)) ?m)" by simp
  then have "approvedEntry_of ev (r\<lparr>pd_approved := True\<rparr>) \<in> set ?es"
    by (simp only: set_map) (rule imageI)
  then have "approvedEntry_of ev r \<in> set ?es" by (simp only: approvedEntry_of_approved)
  with resp show ?thesis by blast
qed

text \<open>
  C6 (amended). In a store with unique identifiers, approving a parameter that casts to
  the identifier \<open>i\<close> answers 404 and changes nothing when no record has \<open>i\<close>. When
  record \<open>r\<close> has it, the answer is 200 with \<open>r\<close> updated, and the store differs only
  in that the flag of \<open>r\<close> is set. Afterwards no entry of the pending list has
  identifier \<open>i\<close>, and the query for approved data with the college name and year of
  \<open>r\<close> returns an entry for \<open>r\<close> provided the file of \<open>r\<close> exists and every existing
  file decodes. A parameter that does not cast to an identifier is answered with
  500, and the store is unchanged.
\<close>

theorem approve_placement_effect:
  assumes "distinct (map pd_id (placementdatas s))"
  shows
    "(i \<notin> set (map pd_id (placementdatas s)) \<longrightarrow>
        approve_placement (ObjectId i) s = ((404, Message ''Placement not found''), s)) \<and>
     (\<forall>r. r \<in> set (placementdatas s) \<and> pd_id r = i \<longrightarrow>
        approve_placement (ObjectId i) s =
          ((200, PlacementApproved ''Placement approved successfully''
                   (r\<lparr>pd_approved := True\<rparr>)),
           approved_store i s) \<and>
        (\<forall>es. get_placement_data ev (approved_store i s) = (200, PendingList es) \<longrightarrow>
           i \<notin> pe_id ` set es) \<and>
        (\<forall>year. existsSync ev (pd_fileUrl r) \<and> files_decode ev s \<and>
           pd_collegeName r \<noteq> [] \<and> year \<noteq> [] \<and> parseInt ev year = Some (pd_year r) \<longrightarrow>
           (\<exists>es. get_approved_placement_data ev (Some (pd_collegeName r)) (Some year)
                    (approved_store i s) = (200, ApprovedList es) \<and>
                  approvedEntry_of ev r \<in> set es))) \<and>
     (\<forall>t. t \<noteq> [] \<longrightarrow>
        approve_placement (NotObjectId t) s =
          ((500, Message ''Failed to approve placement''), s))"
proof (intro conjI allI impI)
  assume "i \<notin> set (map pd_id (placementdatas s))"
  then show "approve_placement (ObjectId i) s = ((404, Message ''Placement not found''), s)"
    by (rule approve_placement_absent)
next
  fix r assume "r \<in> set (placementdatas s) \<and> pd_id r = i"
  then have "r \<in> set (placementdatas s)" and "pd_id r = i" by simp_all
  with approve_placement_found [OF assms, of r]
  show "approve_placement (ObjectId i) s =
          ((200, PlacementApproved ''Placement approved successfully''
                   (r\<lparr>pd_approved := True\<rparr>)),
           approved_store i s)"
    by (simp add: approved_store_def)
next
  fix r es assume "get_placement_data ev (approved_store i s) = (200, PendingList es)"
  then show "i \<notin> pe_id ` set es" by (rule not_pending_after)
next
  fix r year
  assume a: "r \<in> set (placementdatas s) \<and> pd_id r = i"
    and b: "existsSync ev (pd_fileUrl r) \<and> files_decode ev s \<and>
           pd_collegeName r \<noteq> [] \<and> year \<noteq> [] \<and> parseInt ev year = Some (pd_year r)"
  from a have i: "pd_id r = i" by simp
  from a b approved_query_after [of r s ev year]
  show "\<exists>es. get_approved_placement_data ev (Some (pd_collegeName r)) (Some year)
                    (approved_store i s) = (200, ApprovedList es) \<and>
                  approvedEntry_of ev r \<in> set es"
    unfolding i by blast
next
  fix t :: string assume "t \<noteq> []"
  then show "approve_placement (NotObjectId t) s =
          ((500, Message ''Failed to approve placement''), s)"
    by (simp add: approve_placement_not_an_id)
qed

theorem approve_placement_effect_witness:
  "distinct (map pd_id (placementdatas (one_placement ''uploads/a.csv'' False))) \<and>
   (4::nat) \<notin> set (map pd_id (placementdatas (one_placement ''uploads/a.csv'' False))) \<and>
   approve_placement (ObjectId 4) (one_placement ''uploads/a.csv'' False) =
     ((404, Message ''Placement not found''), one_placement ''uploads/a.csv'' False) \<and>
   approve_placement (ObjectId 3) (one_placement ''uploads/a.csv'' False) =
     ((200, PlacementApproved ''Placement approved successfully''
              ((sample_placement ''uploads/a.csv'')\<lparr>pd_approved := True\<rparr>)),
      one_placement ''uploads/a.csv'' True) \<and>
   approve_placement (NotObjectId ''abc'') (one_placement ''uploads/a.csv'' False) =
     ((500, Message ''Failed to approve placement''), one_placement ''uploads/a.csv'' False) \<and>
   get_placement_data sample_env (one_placement ''uploads/a.csv'' True) = (200, PendingList []) \<and>
   get_approved_placement_data sample_env (Some ''COEP'') (Some ''2023'')
       (one_placement ''uploads/a.csv'' True) =
     (200, ApprovedList [\<lparr>ae_collegeName = ''COEP'', ae_year = 2023,
                          ae_data = [[(''branch'', ''CSE''), (''placed'', ''42'')]]\<rparr>])"
proof -
  let ?s = "one_placement ''uploads/a.csv'' False"
  have d: "distinct (map pd_id (placementdatas ?s))"
    by (simp add: one_placement_def)
  have n: "(4::nat) \<notin> set (map pd_id (placementdatas ?s))"
    by (simp add: one_placement_def sample_placement_def)
  have st: "approved_store 3 ?s = one_placement ''uploads/a.csv'' True"
    by (simp add: approved_store_def one_placement_def sample_placement_def empty_db_def)
  have m: "sample_placement ''uploads/a.csv'' \<in> set (placementdatas ?s) \<and>
      pd_id (sample_placement ''uploads/a.csv'') = 3"
    by (simp add: one_placement_def sample_placement_def)
  from approve_placement_effect [OF d, of 4 sample_env] n
  have a: "approve_placement (ObjectId 4) ?s = ((404, Message ''Placement not found''), ?s)"
    by blast
  from approve_placement_effect [OF d, of 3 sample_env] m
  have b: "approve_placement (ObjectId 3) ?s =
     ((200, PlacementApproved ''Placement approved successfully''
              ((sample_placement ''uploads/a.csv'')\<lparr>pd_approved := True\<rparr>)),
      one_placement ''uploads/a.csv'' True)"
    unfolding st by blast
  have ne: "''abc'' \<noteq> []" by simp
  from approve_placement_effect [OF d, of 3 sample_env] ne
  have f: "approve_placement (NotObjectId ''abc'') ?s =
      ((500, Message ''Failed to approve placement''), ?s)"
    by blast
  have c: "get_placement_data sample_env (one_placement ''uploads/a.csv'' True) =
      (200, PendingList [])"
    by (simp add: get_placement_data_def one_placement_def sample_placement_def empty_db_def)
  have e: "get_approved_placement_data sample_env (Some ''COEP'') (Some ''2023'')
       (one_placement ''uploads/a.csv'' True) =
     (200, ApprovedList [\<lparr>ae_collegeName = ''COEP'', ae_year = 2023,
                          ae_data = [[(''branch'', ''CSE''), (''placed'', ''42'')]]\<rparr>])"
    by (simp add: get_approved_placement_data_def approved_matching_def one_placement_def
        sample_placement_def empty_db_def sample_env_def falsy_def)
  from d n a b c e f show ?thesis by blast
qed

text \<open>
  C6 as stated fails twice. For a record whose file is missing, the approval succeeds
  and the query for its college name and year answers with an empty list. And a
  parameter that does not cast to an identifier, which no record has, is answered with
  500 and not with 404.
\<close>

theorem approved_file_missing_counterexample:
  "approve_placement (ObjectId 3) (one_placement ''uploads/gone.csv'' False) =
     ((200, PlacementApproved ''Placement approved successfully''
              ((sample_placement ''uploads/gone.csv'')\<lparr>pd_approved := True\<rparr>)),
      one_placement ''uploads/gone.csv'' True) \<and>
   get_approved_placement_data sample_env (Some ''COEP'') (Some ''2023'')
       (one_placement ''uploads/gone.csv'' True) = (200, ApprovedList []) \<and>
   approve_placement (NotObjectId ''abc'') (one_placement ''uploads/gone.csv'' False) =
     ((500, Message ''Failed to approve placement''), one_placement ''uploads/gone.csv'' False)"
  by (simp add: approve_placement_def PlacementData_findByIdAndUpdate_def falsy_id_def
      get_approved_placement_data_def approved_matching_def one_placement_def
      sample_placement_def empty_db_def sample_env_def falsy_def)

section \<open>Registration and login\<close>

lemma toLowerChar_not_upper: "\<not> isUpper (toLowerChar c)"
proof (cases "isUpper c")
  case True
  then have "(of_char (toLowerChar c) :: nat) = of_char c + 32"
    by (simp add: toLowerChar_def isUpper_def of_char_of)
  with True show ?thesis by (simp add: isUpper_def)
next
  case False
  then show ?thesis by (simp add: toLowerChar_def)
qed

lemma toLowerCase_no_upper: "\<not> list_ex isUpper (toLowerCase ev t)"
  by (simp add: toLowerCase_def list_ex_iff toLowerChar_not_upper)

lemma toLowerCase_upper: "list_ex isUpper e \<Longrightarrow> toLowerCase ev e \<noteq> e"
  using toLowerCase_no_upper [of ev e] by auto

lemma find_email_none: "e \<notin> set (map u_email us) \<Longrightarrow> find (\<lambda>u. u_email u = e) us = None"
  by (induction us) auto

lemma find_email_some:
  "distinct (map u_email us) \<Longrightarrow> u \<in> set us \<Longrightarrow> find (\<lambda>x. u_email x = u_email u) us = Some u"
  by (induction us) (auto simp: image_iff)

lemma find_email_stored:
  "e \<in> set (map u_email us) \<Longrightarrow> \<exists>u. find (\<lambda>u. u_email u = e) us = Some u"
  by (induction us) auto

lemma register_created:
  assumes "name \<noteq> []" and "email \<noteq> []" and "password \<noteq> []"
    and "role = ''admin'' \<or> role = ''student''"
    and "bcrypt_hash ev password \<noteq> []"
    and "toLowerCase ev email \<noteq> []"
    and "toLowerCase ev email \<notin> set (map u_email (users s))"
  shows "register ev \<lparr>r_name = Some (JString name), r_email = Some (JString email),
                      r_password = Some (JString password),
                      r_userType = Some (JString role)\<rparr> s =
           ((201, Message ''User registered successfully.''),
            s\<lparr>users := users s @
                  [\<lparr>u_id = next_id s, u_name = name, u_email = toLowerCase ev email,
                    u_password = bcrypt_hash ev password, u_userType = role,
                    u_createdAt = Date_now ev\<rparr>],
              next_id := Suc (next_id s)\<rparr>)"
proof -
  have none: "User_findOne ev (JString (toLowerCase ev email)) s = Inr None"
    using assms(7) by (simp add: User_findOne_def find_email_none)
  show ?thesis
    using assms(1-6) assms(7) none
    by (auto simp: register_def falsy_json_def as_string_def castString_def User_save_def
        UserSchema_valid_def Let_def)
qed

lemma register_conflict:
  assumes "\<not> falsy_json (r_name body)" and "\<not> falsy_json (r_password body)"
    and "\<not> falsy_json (r_userType body)"
    and "r_email body = Some (JString email)" and "email \<noteq> []"
    and "toLowerCase ev email \<in> set (map u_email (users s))"
  shows "register ev body s = ((400, Message ''Email already in use.''), s)"
proof -
  from find_email_stored [OF assms(6)] obtain u where
    "User_findOne ev (JString (toLowerCase ev email)) s = Inr (Some u)"
    by (auto simp: User_findOne_def)
  with assms(1-5) show ?thesis
    by (simp add: register_def falsy_json_def as_string_def)
qed

lemma register_users:
  "users (snd (register ev body s)) = users s \<or>
   (\<exists>u e. users (snd (register ev body s)) = users s @ [u] \<and>
        u_email u = toLowerCase ev e \<and> u_email u \<notin> set (map u_email (users s)))"
  by (auto simp: register_def User_save_def Let_def split: option.splits sum.splits)

lemma register_keeps_emails_distinct:
  "distinct (map u_email (users s)) \<Longrightarrow>
   distinct (map u_email (users (snd (register ev body s))))"
  using register_users [of ev body s] by auto




lemma lower_chars_sample: "map toLowerChar ''Asha@Example.com'' = ''asha@example.com''"
  by (simp add: toLowerChar_def isUpper_def) code_simp

lemma lower_chars_sample2: "map toLowerChar ''ASHA@example.com'' = ''asha@example.com''"
  by (simp add: toLowerChar_def isUpper_def) code_simp

lemma unicode_sample: "unicode_toLowerCase sample_env = (\<lambda>t. t)"
  by (simp add: sample_env_def)

lemma lower_sample: "toLowerCase sample_env ''Asha@Example.com'' = ''asha@example.com''"
  by (simp only: toLowerCase_def unicode_sample lower_chars_sample)

lemma lower_sample2: "toLowerCase sample_env ''ASHA@example.com'' = ''asha@example.com''"
  by (simp only: toLowerCase_def unicode_sample lower_chars_sample2)

lemma register_sample:
  "register sample_env (sample_register ''Asha@Example.com'' ''student'') empty_db =
     ((201, Message ''User registered successfully.''),
      empty_db\<lparr>users := [sample_user], next_id := 1\<rparr>)"
proof -
  have b: "bcrypt_hash sample_env ''secret'' = ''$2b$secret''" "Date_now sample_env = 1700000000"
    by (simp_all add: sample_env_def)
  have e: "users empty_db = []" "next_id empty_db = 0"
    by (simp_all add: empty_db_def)
  have u: "User_findOne sample_env (JString ''asha@example.com'') empty_db = Inr None"
    by (simp add: User_findOne_def e)
  show ?thesis
    by (simp add: register_def sample_register_def falsy_json_def as_string_def
        castString_def lower_sample u b e User_save_def UserSchema_valid_def sample_user_def)
qed

text \<open>
  Under a case mapping that folds letters beyond ASCII, two emails that differ in such
  a letter only are one email to registration.
\<close>

lemma lower_latin_upper:
  "toLowerCase latin_env [CHR 0xC3, CHR 0x80, CHR ''@'', CHR ''x''] =
     [CHR 0xC3, CHR 0xA0, CHR ''@'', CHR ''x'']"
  by (simp add: toLowerCase_def latin_env_def sample_env_def toLowerChar_def isUpper_def)

lemma lower_latin_lower:
  "toLowerCase latin_env [CHR 0xC3, CHR 0xA0, CHR ''@'', CHR ''x''] =
     [CHR 0xC3, CHR 0xA0, CHR ''@'', CHR ''x'']"
  by (simp add: toLowerCase_def latin_env_def sample_env_def toLowerChar_def isUpper_def)

lemma register_twice_beyond_ascii:
  "\<exists>s1. register latin_env
          (sample_register [CHR 0xC3, CHR 0x80, CHR ''@'', CHR ''x''] ''student'') empty_db =
          ((201, Message ''User registered successfully.''), s1) \<and>
        register latin_env
          (sample_register [CHR 0xC3, CHR 0xA0, CHR ''@'', CHR ''x''] ''student'') s1 =
          ((400, Message ''Email already in use.''), s1)"
proof -
  let ?up = "[CHR 0xC3, CHR 0x80, CHR ''@'', CHR ''x'']"
  let ?lo = "[CHR 0xC3, CHR 0xA0, CHR ''@'', CHR ''x'']"
  have h: "bcrypt_hash latin_env ''secret'' \<noteq> []"
    by (simp add: latin_env_def sample_env_def)
  have n: "toLowerCase latin_env ?up \<noteq> []"
    "toLowerCase latin_env ?up \<notin> set (map u_email (users empty_db))"
    by (simp_all add: lower_latin_upper empty_db_def)
  have first: "register latin_env (sample_register ?up ''student'') empty_db =
      ((201, Message ''User registered successfully.''),
       empty_db\<lparr>users := users empty_db @
           [\<lparr>u_id = next_id empty_db, u_name = ''Asha'', u_email = toLowerCase latin_env ?up,
             u_password = bcrypt_hash latin_env ''secret'', u_userType = ''student'',
             u_createdAt = Date_now latin_env\<rparr>],
         next_id := Suc (next_id empty_db)\<rparr>)"
    using register_created [of "''Asha''" ?up "''secret''" "''student''" latin_env empty_db] h n
    by (simp add: sample_register_def)
  let ?s1 = "empty_db\<lparr>users := users empty_db @
           [\<lparr>u_id = next_id empty_db, u_name = ''Asha'', u_email = toLowerCase latin_env ?up,
             u_password = bcrypt_hash latin_env ''secret'', u_userType = ''student'',
             u_createdAt = Date_now latin_env\<rparr>],
         next_id := Suc (next_id empty_db)\<rparr>"
  have "toLowerCase latin_env ?lo \<in> set (map u_email (users ?s1))"
    by (simp add: lower_latin_upper lower_latin_lower)
  then have "register latin_env (sample_register ?lo ''student'') ?s1 =
      ((400, Message ''Email already in use.''), ?s1)"
    by (intro register_conflict [where email = ?lo])
       (simp_all add: sample_register_def falsy_json_def)
  with first show ?thesis by blast
qed

text \<open>
  C2 (amended). With a non-empty name and password, a role of the schema (\<open>admin\<close> or
  \<open>student\<close>) and an email whose lower-case form is not stored yet, registration
  answers 201; a second registration whose email has the same lower-case form
  (whatever its other fields hold) answers 400 with \<open>Email already in use.\<close> and
  leaves the store as the first one left it.
\<close>

theorem register_twice:
  assumes "name \<noteq> []" and "email \<noteq> []" and "password \<noteq> []"
    and "role = ''admin'' \<or> role = ''student''"
    and "bcrypt_hash ev password \<noteq> []"
    and "toLowerCase ev email \<noteq> []"
    and "toLowerCase ev email \<notin> set (map u_email (users s))"
    and "\<not> falsy_json (r_name again)" and "\<not> falsy_json (r_password again)"
    and "\<not> falsy_json (r_userType again)"
    and "r_email again = Some (JString email')" and "email' \<noteq> []"
    and "toLowerCase ev email' = toLowerCase ev email"
  shows "\<exists>s1. register ev \<lparr>r_name = Some (JString name), r_email = Some (JString email),
                   r_password = Some (JString password),
                   r_userType = Some (JString role)\<rparr> s =
                ((201, Message ''User registered successfully.''), s1) \<and>
              register ev again s1 = ((400, Message ''Email already in use.''), s1)"
proof -
  let ?s1 = "s\<lparr>users := users s @
                  [\<lparr>u_id = next_id s, u_name = name, u_email = toLowerCase ev email,
                    u_password = bcrypt_hash ev password, u_userType = role,
                    u_createdAt = Date_now ev\<rparr>],
              next_id := Suc (next_id s)\<rparr>"
  note first = register_created [OF assms(1-7)]
  have "toLowerCase ev email' \<in> set (map u_email (users ?s1))"
    by (simp add: assms(13))
  from register_conflict [OF assms(8-12) this] first show ?thesis by blast
qed

theorem register_twice_witness:
  "register sample_env (sample_register ''Asha@Example.com'' ''student'') empty_db =
     ((201, Message ''User registered successfully.''),
      empty_db\<lparr>users := [sample_user], next_id := 1\<rparr>) \<and>
   register sample_env (sample_register ''ASHA@example.com'' ''admin'')
       (empty_db\<lparr>users := [sample_user], next_id := 1\<rparr>) =
     ((400, Message ''Email already in use.''),
      empty_db\<lparr>users := [sample_user], next_id := 1\<rparr>)"
proof -
  let ?again = "sample_register ''ASHA@example.com'' ''admin''"
  have h: "''Asha'' \<noteq> []" "''Asha@Example.com'' \<noteq> []" "''secret'' \<noteq> []"
    "''student'' = ''admin'' \<or> ''student'' = ''student''"
    "bcrypt_hash sample_env ''secret'' \<noteq> []"
    "toLowerCase sample_env ''Asha@Example.com'' \<noteq> []"
    "toLowerCase sample_env ''Asha@Example.com'' \<notin> set (map u_email (users empty_db))"
    by (simp_all add: lower_sample empty_db_def, simp add: sample_env_def)
  have g: "\<not> falsy_json (r_name ?again)" "\<not> falsy_json (r_password ?again)"
    "\<not> falsy_json (r_userType ?again)"
    "r_email ?again = Some (JString ''ASHA@example.com'')" "''ASHA@example.com'' \<noteq> []"
    "toLowerCase sample_env ''ASHA@example.com'' = toLowerCase sample_env ''Asha@Example.com''"
    by (simp_all add: sample_register_def falsy_json_def lower_sample lower_sample2)
  from register_twice [OF h g]
  obtain s1 where
    a: "register sample_env (sample_register ''Asha@Example.com'' ''student'') empty_db =
          ((201, Message ''User registered successfully.''), s1)"
    and b: "register sample_env ?again s1 = ((400, Message ''Email already in use.''), s1)"
    unfolding sample_register_def by blast
  from a register_sample have "s1 = empty_db\<lparr>users := [sample_user], next_id := 1\<rparr>"
    by simp
  with a b show ?thesis by simp
qed

text \<open>
  C2 as stated fails for a role outside the schema: with the role \<open>teacher\<close> the first
  registration does not pass validation and is answered with 500, nothing stored.
\<close>

theorem register_unknown_role_counterexample:
  "toLowerCase sample_env ''Asha@Example.com'' \<notin> set (map u_email (users empty_db)) \<and>
   register sample_env (sample_register ''Asha@Example.com'' ''teacher'') empty_db =
     ((500, Message ''Server error.''), empty_db)"
proof -
  have e: "users empty_db = []" by (simp add: empty_db_def)
  have u: "User_findOne sample_env (JString ''asha@example.com'') empty_db = Inr None"
    by (simp add: User_findOne_def e)
  show ?thesis
    by (simp add: register_def sample_register_def falsy_json_def as_string_def
        castString_def lower_sample u e User_save_def UserSchema_valid_def)
qed

text \<open>
  What the login handler does with the two failure causes. For passwords that are
  strings they get the same answer. For a password that is not a string (and not
  falsy) they do not: with a stored email the comparison of the hash throws and the
  answer is 500, with an unknown email the comparison is never reached and the answer
  is 400.
\<close>

lemma login_failures_identical_for_strings:
  assumes "u \<in> set (users s)" and "distinct (map u_email (users s))"
    and "u_email u \<noteq> []" and "wrong \<noteq> []"
    and "\<not> bcrypt_compare ev wrong (u_password u)"
    and "unknown \<notin> set (map u_email (users s))" and "unknown \<noteq> []" and "password \<noteq> []"
  shows "login ev \<lparr>l_email = Some (JString (u_email u)), l_password = Some (JString wrong)\<rparr> s =
           (400, Message ''Invalid credentials.'') \<and>
         login ev \<lparr>l_email = Some (JString unknown), l_password = Some (JString password)\<rparr> s =
           (400, Message ''Invalid credentials.'')"
proof -
  have "User_findOne ev (JString (u_email u)) s = Inr (Some u)"
    using find_email_some [OF assms(2,1)] by (simp add: User_findOne_def)
  with assms(3-5) have a:
    "login ev \<lparr>l_email = Some (JString (u_email u)), l_password = Some (JString wrong)\<rparr> s =
           (400, Message ''Invalid credentials.'')"
    by (simp add: login_def falsy_json_def as_string_def)
  have "User_findOne ev (JString unknown) s = Inr None"
    using find_email_none [OF assms(6)] by (simp add: User_findOne_def)
  with assms(7,8) have
    "login ev \<lparr>l_email = Some (JString unknown), l_password = Some (JString password)\<rparr> s =
           (400, Message ''Invalid credentials.'')"
    by (simp add: login_def falsy_json_def as_string_def)
  with a show ?thesis by simp
qed

lemma login_password_not_a_string:
  assumes "u \<in> set (users s)" and "distinct (map u_email (users s))"
    and "u_email u \<noteq> []" and "\<not> falsy_json (Some p)" and "as_string (Some p) = None"
    and "unknown \<notin> set (map u_email (users s))" and "unknown \<noteq> []"
  shows "login ev \<lparr>l_email = Some (JString (u_email u)), l_password = Some p\<rparr> s =
           (500, Message ''Server error.'') \<and>
         login ev \<lparr>l_email = Some (JString unknown), l_password = Some p\<rparr> s =
           (400, Message ''Invalid credentials.'')"
proof -
  have "User_findOne ev (JString (u_email u)) s = Inr (Some u)"
    using find_email_some [OF assms(2,1)] by (simp add: User_findOne_def)
  with assms(3-5) have a:
    "login ev \<lparr>l_email = Some (JString (u_email u)), l_password = Some p\<rparr> s =
           (500, Message ''Server error.'')"
    by (simp add: login_def falsy_json_def)
  have "User_findOne ev (JString unknown) s = Inr None"
    using find_email_none [OF assms(6)] by (simp add: User_findOne_def)
  with assms(4,7) have
    "login ev \<lparr>l_email = Some (JString unknown), l_password = Some p\<rparr> s =
           (400, Message ''Invalid credentials.'')"
    by (simp add: login_def falsy_json_def)
  with a show ?thesis by simp
qed

text \<open>
  C3. The handler evaluated at a stored user's email and at an unknown email, both
  with the number 12345 as password: the first is answered with 500 and \<open>Server error.\<close>,
  the second with 400 and \<open>Invalid credentials.\<close>, so the two failure causes can be told
  apart. With a wrong string password the stored email gets the 400 as well, and with
  the right one the login succeeds.
\<close>

theorem login_number_password_distinguishes:
  "login sample_env (sample_login ''asha@example.com'' (JNumber 12345))
       (empty_db\<lparr>users := [sample_user]\<rparr>) = (500, Message ''Server error.'') \<and>
   login sample_env (sample_login ''bob@example.com'' (JNumber 12345))
       (empty_db\<lparr>users := [sample_user]\<rparr>) = (400, Message ''Invalid credentials.'') \<and>
   login sample_env (sample_login ''asha@example.com'' (JString ''guess''))
       (empty_db\<lparr>users := [sample_user]\<rparr>) = (400, Message ''Invalid credentials.'') \<and>
   login sample_env (sample_login ''asha@example.com'' (JString ''secret''))
       (empty_db\<lparr>users := [sample_user]\<rparr>) =
     (200, LoginOk ''jwt.student'' ''student'' ''Asha'')"
  by (simp add: login_def sample_login_def falsy_json_def as_string_def User_findOne_def
      sample_user_def sample_env_def empty_db_def)



section \<open>Profile submission\<close>

text \<open>
  C5 (amended). When the \<open>marks10\<close> field of a submission does not decode, the handler
  answers 500 with \<open>Failed to save student details\<close> and the store is unchanged.
\<close>

theorem submitDetails_malformed_marks10:
  assumes "JSON_parse_field ev (sd_marks10 body) = None"
  shows "submitDetails ev body files s =
           ((500, Message ''Failed to save student details''), s)"
  using assms by (simp add: submitDetails_def)

theorem submitDetails_malformed_marks10_witness:
  "JSON_parse_field sample_env (sd_marks10 (sample_details (Some ''{math:''))) = None \<and>
   submitDetails sample_env (sample_details (Some ''{math:''))
       \<lparr>f_photo = None, f_markSheet = None\<rparr> empty_db =
     ((500, Message ''Failed to save student details''), empty_db)"
proof -
  have h: "JSON_parse_field sample_env (sd_marks10 (sample_details (Some ''{math:''))) = None"
    by (simp add: JSON_parse_field_def sample_details_def sample_env_def)
  from submitDetails_malformed_marks10 [OF h] h show ?thesis by blast
qed

text \<open>
  C5 as stated fails on the status: a submission whose \<open>marks10\<close> does not decode is
  answered with 500, not with a 400; the same submission with a \<open>marks10\<close> that decodes
  is saved.
\<close>

theorem submitDetails_status_counterexample:
  "JSON_parse_field sample_env (sd_marks10 (sample_details (Some ''{math:''))) = None \<and>
   fst (fst (submitDetails sample_env (sample_details (Some ''{math:''))
               \<lparr>f_photo = None, f_markSheet = None\<rparr> empty_db)) = 500 \<and>
   fst (fst (submitDetails sample_env (sample_details (Some ''{math:''))
               \<lparr>f_photo = None, f_markSheet = None\<rparr> empty_db)) \<noteq> 400 \<and>
   fst (fst (submitDetails sample_env (sample_details (Some ''{}''))
               \<lparr>f_photo = None, f_markSheet = None\<rparr> empty_db)) = 201"
  by (simp add: submitDetails_def JSON_parse_field_def sample_details_def sample_env_def
      Student_save_def required_String_def)

section \<open>Transaction ledger updates\<close>

lemma update_first_length: "length (update_first p f xs) = length xs"
  by (induction xs) auto

lemma update_first_found:
  "find p xs = Some t \<Longrightarrow>
   \<exists>ys zs. xs = ys @ t # zs \<and> (\<forall>y \<in> set ys. \<not> p y) \<and> update_first p f xs = ys @ f t # zs"
proof (induction xs)
  case Nil
  then show ?case by simp
next
  case (Cons x xs)
  show ?case
  proof (cases "p x")
    case True
    with Cons.prems have "x = t" by simp
    with True show ?thesis by (intro exI [of _ "[]"] exI [of _ xs]) simp
  next
    case False
    with Cons.prems have "find p xs = Some t" by simp
    from Cons.IH [OF this] obtain ys zs where
      "xs = ys @ t # zs" "\<forall>y \<in> set ys. \<not> p y" "update_first p f xs = ys @ f t # zs"
      by blast
    with False show ?thesis
      by (intro exI [of _ "x # ys"] exI [of _ zs]) simp
  qed
qed

text \<open>
  C7. For every order id and status string: when a transaction with that order id
  exists, the first such transaction gets the status, every other document stays as
  it was, and the updated document is returned; when none exists, a new document with
  that order id and status is appended and returned. The answer is 200 in both cases,
  whatever the status string.
\<close>

theorem payment_status_upserts:
  "(\<forall>t. find (\<lambda>t. t_orderId t = Some orderId) (transactions s) = Some t \<longrightarrow>
      payment_status ev orderId status s =
        ((200, TransactionJson (t\<lparr>t_status := status\<rparr>)),
         s\<lparr>transactions :=
             update_first (\<lambda>t. t_orderId t = Some orderId) (\<lambda>t. t\<lparr>t_status := status\<rparr>)
               (transactions s)\<rparr>) \<and>
      (\<exists>ys zs. transactions s = ys @ t # zs \<and>
         (\<forall>y \<in> set ys. t_orderId y \<noteq> Some orderId) \<and>
         transactions (snd (payment_status ev orderId status s)) =
           ys @ t\<lparr>t_status := status\<rparr> # zs)) \<and>
   (Some orderId \<notin> set (map t_orderId (transactions s)) \<longrightarrow>
      (\<exists>t. payment_status ev orderId status s =
         ((200, TransactionJson t),
          s\<lparr>transactions := transactions s @ [t], next_id := Suc (next_id s)\<rparr>) \<and>
         t_orderId t = Some orderId \<and> t_status t = status)) \<and>
   fst (fst (payment_status ev orderId status s)) = 200"
proof (intro conjI allI impI)
  fix t assume f: "find (\<lambda>t. t_orderId t = Some orderId) (transactions s) = Some t"
  then show eq: "payment_status ev orderId status s =
        ((200, TransactionJson (t\<lparr>t_status := status\<rparr>)),
         s\<lparr>transactions :=
             update_first (\<lambda>t. t_orderId t = Some orderId) (\<lambda>t. t\<lparr>t_status := status\<rparr>)
               (transactions s)\<rparr>)"
    by (simp add: payment_status_def Transaction_findOneAndUpdate_def)
  from update_first_found [OF f, of "\<lambda>t. t\<lparr>t_status := status\<rparr>"]
  show "\<exists>ys zs. transactions s = ys @ t # zs \<and>
         (\<forall>y \<in> set ys. t_orderId y \<noteq> Some orderId) \<and>
         transactions (snd (payment_status ev orderId status s)) =
           ys @ t\<lparr>t_status := status\<rparr> # zs"
    unfolding eq by simp
next
  assume "Some orderId \<notin> set (map t_orderId (transactions s))"
  then have "find (\<lambda>t. t_orderId t = Some orderId) (transactions s) = None"
    by (rule find_by_id_absent)
  then show "\<exists>t. payment_status ev orderId status s =
         ((200, TransactionJson t),
          s\<lparr>transactions := transactions s @ [t], next_id := Suc (next_id s)\<rparr>) \<and>
         t_orderId t = Some orderId \<and> t_status t = status"
    by (simp add: payment_status_def Transaction_findOneAndUpdate_def Let_def)
next
  show "fst (fst (payment_status ev orderId status s)) = 200"
    by (simp add: payment_status_def split: prod.splits)
qed

theorem payment_status_upserts_witness:
  "find (\<lambda>t. t_orderId t = Some ''order_1'') (transactions (empty_db\<lparr>transactions := [sample_transaction]\<rparr>))
     = Some sample_transaction \<and>
   payment_status sample_env ''order_1'' ''paid-in-full'' (empty_db\<lparr>transactions := [sample_transaction]\<rparr>) =
     ((200, TransactionJson (sample_transaction\<lparr>t_status := ''paid-in-full''\<rparr>)),
      empty_db\<lparr>transactions := [sample_transaction\<lparr>t_status := ''paid-in-full''\<rparr>]\<rparr>) \<and>
   Some ''order_2'' \<notin> set (map t_orderId (transactions (empty_db\<lparr>transactions := [sample_transaction]\<rparr>))) \<and>
   length (transactions (snd (payment_status sample_env ''order_2'' ''whatever''
       (empty_db\<lparr>transactions := [sample_transaction]\<rparr>)))) = 2"
proof -
  let ?s = "empty_db\<lparr>transactions := [sample_transaction]\<rparr>"
  have h1: "find (\<lambda>t. t_orderId t = Some ''order_1'') (transactions ?s) = Some sample_transaction"
    by (simp add: sample_transaction_def)
  have h2: "Some ''order_2'' \<notin> set (map t_orderId (transactions ?s))"
    by (simp add: sample_transaction_def)
  from payment_status_upserts [of "''order_1''" ?s sample_env "''paid-in-full''"] h1
  have a: "payment_status sample_env ''order_1'' ''paid-in-full'' ?s =
     ((200, TransactionJson (sample_transaction\<lparr>t_status := ''paid-in-full''\<rparr>)),
      ?s\<lparr>transactions :=
             update_first (\<lambda>t. t_orderId t = Some ''order_1'') (\<lambda>t. t\<lparr>t_status := ''paid-in-full''\<rparr>)
               (transactions ?s)\<rparr>)"
    by blast
  have u: "?s\<lparr>transactions :=
             update_first (\<lambda>t. t_orderId t = Some ''order_1'') (\<lambda>t. t\<lparr>t_status := ''paid-in-full''\<rparr>)
               (transactions ?s)\<rparr> =
      empty_db\<lparr>transactions := [sample_transaction\<lparr>t_status := ''paid-in-full''\<rparr>]\<rparr>"
    by (simp add: sample_transaction_def)
  from payment_status_upserts [of "''order_2''" ?s sample_env "''whatever''"] h2
  obtain t where "payment_status sample_env ''order_2'' ''whatever'' ?s =
         ((200, TransactionJson t),
          ?s\<lparr>transactions := transactions ?s @ [t], next_id := Suc (next_id ?s)\<rparr>)"
    by blast
  then have b: "length (transactions (snd (payment_status sample_env ''order_2'' ''whatever'' ?s))) = 2"
    by simp
  from h1 h2 a b show ?thesis unfolding u by blast
qed

text \<open>
  C10. When no transaction has the order id, the document the update creates holds the
  order id, the status and the default timestamp, and neither email nor amount; a
  document created by \<open>POST /transactions\<close> from an email, an order id and an amount
  holds all three, with the default status.
\<close>

theorem upsert_inserted_record:
  assumes "Some orderId \<notin> set (map t_orderId (transactions s))"
  shows "payment_status ev orderId status s =
           ((200, TransactionJson
                    \<lparr>t_id = next_id s, t_email = None, t_orderId = Some orderId,
                     t_amount = None, t_status = status, t_timestamp = Date_now ev\<rparr>),
            s\<lparr>transactions := transactions s @
                  [\<lparr>t_id = next_id s, t_email = None, t_orderId = Some orderId,
                    t_amount = None, t_status = status, t_timestamp = Date_now ev\<rparr>],
              next_id := Suc (next_id s)\<rparr>) \<and>
         post_transactions ev
             \<lparr>tb_email = Some email, tb_orderId = Some orderId, tb_amount = Amount amount\<rparr> s =
           ((201, TransactionJson
                    \<lparr>t_id = next_id s, t_email = Some email, t_orderId = Some orderId,
                     t_amount = Some amount, t_status = ''pending'',
                     t_timestamp = Date_now ev\<rparr>),
            s\<lparr>transactions := transactions s @
                  [\<lparr>t_id = next_id s, t_email = Some email, t_orderId = Some orderId,
                    t_amount = Some amount, t_status = ''pending'',
                    t_timestamp = Date_now ev\<rparr>],
              next_id := Suc (next_id s)\<rparr>)"
proof -
  from assms have "find (\<lambda>t. t_orderId t = Some orderId) (transactions s) = None"
    by (rule find_by_id_absent)
  then show ?thesis
    by (simp add: payment_status_def Transaction_findOneAndUpdate_def post_transactions_def
        Let_def)
qed

theorem upsert_inserted_record_witness:
  "Some ''order_9'' \<notin> set (map t_orderId (transactions empty_db)) \<and>
   payment_status sample_env ''order_9'' ''paid'' empty_db =
     ((200, TransactionJson
              \<lparr>t_id = 0, t_email = None, t_orderId = Some ''order_9'', t_amount = None,
               t_status = ''paid'', t_timestamp = 1700000000\<rparr>),
      empty_db\<lparr>transactions :=
                  [\<lparr>t_id = 0, t_email = None, t_orderId = Some ''order_9'', t_amount = None,
                    t_status = ''paid'', t_timestamp = 1700000000\<rparr>],
               next_id := 1\<rparr>)"
proof -
  have h: "Some ''order_9'' \<notin> set (map t_orderId (transactions empty_db))"
    by (simp add: empty_db_def)
  from upsert_inserted_record [OF h, of sample_env "''paid''"] h
  show ?thesis by (simp add: empty_db_def sample_env_def)
qed

end
